theory Spec2Isabelle
  imports Complex_Main
begin

section \<open>JavaScript numbers\<close>

text \<open>
  A JavaScript number is modelled as a real or one of the three special values of IEEE 754
  arithmetic. The operations \<open>+\<close>, \<open>-\<close>, \<open>*\<close>, \<open>/\<close> below are the exact ones; the rounding of
  a result to double precision is the separate function \<open>js_double\<close>, further down.
  There is one zero; every divisor that can be zero in the modelled code is a product of
  \<open>Math.abs\<close> values and positive constants or a difference \<open>a - a\<close>, hence \<open>+0\<close>, so the
  sign of a quotient by zero is the sign of the dividend, as below.
\<close>

datatype jsnum = Num real | PosInf | NegInf | NaN

instantiation jsnum :: "{plus, minus, uminus, times, inverse, abs, ord}"
begin

fun plus_jsnum :: "jsnum \<Rightarrow> jsnum \<Rightarrow> jsnum" where
  "plus_jsnum NaN _ = NaN"
| "plus_jsnum _ NaN = NaN"
| "plus_jsnum (Num a) (Num b) = Num (a + b)"
| "plus_jsnum PosInf NegInf = NaN"
| "plus_jsnum NegInf PosInf = NaN"
| "plus_jsnum PosInf _ = PosInf"
| "plus_jsnum _ PosInf = PosInf"
| "plus_jsnum NegInf _ = NegInf"
| "plus_jsnum _ NegInf = NegInf"

fun uminus_jsnum :: "jsnum \<Rightarrow> jsnum" where
  "uminus_jsnum (Num a) = Num (- a)"
| "uminus_jsnum PosInf = NegInf"
| "uminus_jsnum NegInf = PosInf"
| "uminus_jsnum NaN = NaN"

definition minus_jsnum :: "jsnum \<Rightarrow> jsnum \<Rightarrow> jsnum" where
  "minus_jsnum a b = a + (- b)"

text \<open>The sign of a number that is not NaN: \<open>-1\<close>, \<open>0\<close> or \<open>1\<close>.\<close>

fun js_sign :: "jsnum \<Rightarrow> int" where
  "js_sign (Num a) = (if a < 0 then - 1 else if a = 0 then 0 else 1)"
| "js_sign PosInf = 1"
| "js_sign NegInf = - 1"
| "js_sign NaN = 0"

definition js_inf :: "int \<Rightarrow> jsnum" where
  "js_inf s = (if s < 0 then NegInf else PosInf)"

fun times_jsnum :: "jsnum \<Rightarrow> jsnum \<Rightarrow> jsnum" where
  "times_jsnum NaN _ = NaN"
| "times_jsnum _ NaN = NaN"
| "times_jsnum (Num a) (Num b) = Num (a * b)"
| "times_jsnum a b = (if js_sign a * js_sign b = 0 then NaN else js_inf (js_sign a * js_sign b))"

fun divide_jsnum :: "jsnum \<Rightarrow> jsnum \<Rightarrow> jsnum" where
  "divide_jsnum NaN _ = NaN"
| "divide_jsnum _ NaN = NaN"
| "divide_jsnum (Num a) (Num b) =
     (if b = 0 then (if a = 0 then NaN else js_inf (js_sign (Num a))) else Num (a / b))"
| "divide_jsnum (Num a) _ = Num 0"
| "divide_jsnum a (Num b) = js_inf (js_sign a * (if b < 0 then - 1 else 1))"
| "divide_jsnum _ _ = NaN"

definition inverse_jsnum :: "jsnum \<Rightarrow> jsnum" where
  "inverse_jsnum a = divide (Num 1) a"

fun abs_jsnum :: "jsnum \<Rightarrow> jsnum" where
  "abs_jsnum (Num a) = Num \<bar>a\<bar>"
| "abs_jsnum NaN = NaN"
| "abs_jsnum _ = PosInf"

text \<open>Comparisons with NaN are false.\<close>

fun less_jsnum :: "jsnum \<Rightarrow> jsnum \<Rightarrow> bool" where
  "less_jsnum NaN _ = False"
| "less_jsnum _ NaN = False"
| "less_jsnum (Num a) (Num b) = (a < b)"
| "less_jsnum NegInf NegInf = False"
| "less_jsnum NegInf _ = True"
| "less_jsnum _ NegInf = False"
| "less_jsnum PosInf _ = False"
| "less_jsnum _ PosInf = True"

fun less_eq_jsnum :: "jsnum \<Rightarrow> jsnum \<Rightarrow> bool" where
  "less_eq_jsnum NaN _ = False"
| "less_eq_jsnum _ NaN = False"
| "less_eq_jsnum (Num a) (Num b) = (a \<le> b)"
| "less_eq_jsnum NegInf _ = True"
| "less_eq_jsnum _ PosInf = True"
| "less_eq_jsnum _ _ = False"

instance ..

end

text \<open>
  Rounding to double precision: to the nearest number with 53 significant bits, a tie
  going to the one whose last bit is even. The exponent is not bounded: overflow to
  Infinity and gradual underflow are not modelled. \<open>inverseTransformPoint\<close> rounds every
  arithmetic result this way; there the rounding shows in the result. The influence
  functions, the controller and the geometry are kept in exact arithmetic: the properties
  proved of them are comparisons and formulas that the code computes in the same form, and
  \<open>Math.cos\<close> and \<open>Math.pow\<close> have no exact double semantics (their accuracy is left to the
  implementation).
\<close>

definition round_half_even :: "real \<Rightarrow> int" where
  "round_half_even t =
     (let f = \<lfloor>t\<rfloor> in
      if t - of_int f < 1 / 2 then f
      else if 1 / 2 < t - of_int f then f + 1
      else if even f then f else f + 1)"

definition to_double :: "real \<Rightarrow> real" where
  "to_double x =
     (if x = 0 then 0
      else (let u = 2 powr (of_int \<lfloor>log 2 \<bar>x\<bar>\<rfloor> - 52)
            in u * of_int (round_half_even (x / u))))"

fun js_double :: "jsnum \<Rightarrow> jsnum" where
  "js_double (Num a) = Num (to_double a)"
| "js_double v = v"

text \<open>\<open>Math.round\<close>: the nearest integer, a tie going up.\<close>

fun js_round :: "jsnum \<Rightarrow> jsnum" where
  "js_round (Num a) = Num (of_int \<lfloor>a + 1 / 2\<rfloor>)"
| "js_round v = v"

text \<open>\<open>Math.sqrt\<close>, \<open>Math.cos\<close> and \<open>Math.max\<close>.\<close>

fun js_sqrt :: "jsnum \<Rightarrow> jsnum" where
  "js_sqrt (Num a) = (if a < 0 then NaN else Num (sqrt a))"
| "js_sqrt PosInf = PosInf"
| "js_sqrt _ = NaN"

fun js_cos :: "jsnum \<Rightarrow> jsnum" where
  "js_cos (Num a) = Num (cos a)"
| "js_cos _ = NaN"

fun js_max :: "jsnum \<Rightarrow> jsnum \<Rightarrow> jsnum" where
  "js_max NaN _ = NaN"
| "js_max _ NaN = NaN"
| "js_max a b = (if a < b then b else a)"

text \<open>
  \<open>Math.pow(v, e)\<close> for a finite exponent \<open>e > 0\<close>; the source's exponents are \<open>2\<close>,
  \<open>0.7\<close> and \<open>0.6\<close>. A negative base has a power only for an integer exponent.
\<close>

fun js_pow :: "jsnum \<Rightarrow> real \<Rightarrow> jsnum" where
  "js_pow (Num a) e =
     (if a < 0 then (if e = of_int \<lfloor>e\<rfloor> then Num (a ^ nat \<lfloor>e\<rfloor>) else NaN)
      else Num (a powr e))"
| "js_pow PosInf e = PosInf"
| "js_pow NegInf e = (if e = of_int \<lfloor>e\<rfloor> \<and> odd \<lfloor>e\<rfloor> then NegInf else PosInf)"
| "js_pow NaN e = NaN"

text \<open>Exceptions. The only one the modelled code raises is the \<open>TypeError\<close> of reading a
  property of \<open>undefined\<close>.\<close>

datatype js_error = TypeError

section \<open>Configuration constants (config/constants.js)\<close>

datatype perf_level = High | Medium | Low

text \<open>
  One entry of \<open>PERFORMANCE\<close>. The object \<open>getQualitySettings\<close> returns is a copy of one
  entry, so it has these properties and no other.
\<close>

record quality_settings =
  maxFaces :: int
  skipFrames :: int
  shadowBlur :: int
  particleCount :: int
  animationSpeed :: real
  cleanupInterval :: int
  targetFPS :: int
  detectionConfidence :: real

fun PERFORMANCE :: "perf_level \<Rightarrow> quality_settings" where
  "PERFORMANCE High = \<lparr>maxFaces = 5, skipFrames = 1, shadowBlur = 10, particleCount = 8,
     animationSpeed = 1, cleanupInterval = 60, targetFPS = 30, detectionConfidence = 5 / 10\<rparr>"
| "PERFORMANCE Medium = \<lparr>maxFaces = 3, skipFrames = 2, shadowBlur = 5, particleCount = 6,
     animationSpeed = 8 / 10, cleanupInterval = 40, targetFPS = 24, detectionConfidence = 6 / 10\<rparr>"
| "PERFORMANCE Low = \<lparr>maxFaces = 1, skipFrames = 5, shadowBlur = 0, particleCount = 4,
     animationSpeed = 6 / 10, cleanupInterval = 20, targetFPS = 20, detectionConfidence = 7 / 10\<rparr>"

text \<open>\<open>MORPH\<close>: the per-tier parameters and the region constants.\<close>

record morph_filter =
  intensity :: real
  eyeScaleFactor :: real
  mouthScaleFactor :: real
  faceSlimFactor :: real
  jawReductionFactor :: real

record morph_config = morph_filter +
  paddingMultiplier :: real
  faceMultiplier :: real
  heightMultiplier :: real

fun MORPH :: "perf_level \<Rightarrow> morph_config" where
  "MORPH High = \<lparr>intensity = 1, eyeScaleFactor = 25 / 10, mouthScaleFactor = 22 / 10,
     faceSlimFactor = 85 / 100, jawReductionFactor = 9 / 10,
     paddingMultiplier = 8 / 10, faceMultiplier = 12 / 10, heightMultiplier = 13 / 10\<rparr>"
| "MORPH Medium = \<lparr>intensity = 9 / 10, eyeScaleFactor = 2, mouthScaleFactor = 18 / 10,
     faceSlimFactor = 88 / 100, jawReductionFactor = 92 / 100,
     paddingMultiplier = 6 / 10, faceMultiplier = 1, heightMultiplier = 11 / 10\<rparr>"
| "MORPH Low = \<lparr>intensity = 8 / 10, eyeScaleFactor = 16 / 10, mouthScaleFactor = 14 / 10,
     faceSlimFactor = 9 / 10, jawReductionFactor = 95 / 100,
     paddingMultiplier = 4 / 10, faceMultiplier = 8 / 10, heightMultiplier = 9 / 10\<rparr>"

definition EYE_REGION_MULTIPLIER :: real where "EYE_REGION_MULTIPLIER = 12 / 10"
definition EYE_EXTREME_MULTIPLIER :: real where "EYE_EXTREME_MULTIPLIER = 13 / 10"
definition MOUTH_REGION_MULTIPLIER :: real where "MOUTH_REGION_MULTIPLIER = 9 / 10"
definition MOUTH_EXTREME_MULTIPLIER :: real where "MOUTH_EXTREME_MULTIPLIER = 14 / 10"
definition FACE_WIDTH_INFLUENCE :: real where "FACE_WIDTH_INFLUENCE = 6 / 10"
definition FACE_HEIGHT_INFLUENCE :: real where "FACE_HEIGHT_INFLUENCE = 6 / 10"
definition FACE_SLIM_INTENSITY :: real where "FACE_SLIM_INTENSITY = 8 / 10"

text \<open>\<open>LANDMARKS\<close>: the mesh indices the modelled code reads.\<close>

definition NOSE_TIP :: nat where "NOSE_TIP = 1"
definition LEFT_EYE :: nat where "LEFT_EYE = 33"
definition RIGHT_EYE :: nat where "RIGHT_EYE = 263"
definition FOREHEAD_CENTER :: nat where "FOREHEAD_CENTER = 9"
definition LEFT_MOUTH :: nat where "LEFT_MOUTH = 61"
definition RIGHT_MOUTH :: nat where "RIGHT_MOUTH = 291"
definition LEFT_CHEEK :: nat where "LEFT_CHEEK = 116"
definition RIGHT_CHEEK :: nat where "RIGHT_CHEEK = 345"
definition LEFT_EYE_CENTER :: nat where "LEFT_EYE_CENTER = 468"
definition RIGHT_EYE_CENTER :: nat where "RIGHT_EYE_CENTER = 473"
definition LEFT_EYE_INNER :: nat where "LEFT_EYE_INNER = 133"
definition LEFT_EYE_OUTER :: nat where "LEFT_EYE_OUTER = 33"
definition FACE_LEFT :: nat where "FACE_LEFT = 172"
definition FACE_RIGHT :: nat where "FACE_RIGHT = 397"
definition CHIN_TIP :: nat where "CHIN_TIP = 175"
definition MOUTH_LEFT_CORNER :: nat where "MOUTH_LEFT_CORNER = 61"
definition MOUTH_RIGHT_CORNER :: nat where "MOUTH_RIGHT_CORNER = 291"
definition MOUTH_TOP_CENTER :: nat where "MOUTH_TOP_CENTER = 13"
definition MOUTH_BOTTOM_CENTER :: nat where "MOUTH_BOTTOM_CENTER = 17"

text \<open>\<open>CULLING.MAX_FILTER_RADIUS_MULTIPLIER\<close> and \<open>TRACKING.INTERPOLATION_FACTOR\<close>.\<close>

definition MAX_FILTER_RADIUS_MULTIPLIER :: real where "MAX_FILTER_RADIUS_MULTIPLIER = 8 / 10"
definition INTERPOLATION_FACTOR :: real where "INTERPOLATION_FACTOR = 3 / 10"

section \<open>Faces\<close>

text \<open>
  A landmark is the array \<open>[x, y, depth]\<close>; a face carries its mesh in \<open>scaledMesh\<close> and
  whatever else the detector put there (the record's extension).
\<close>

type_synonym point = "real \<times> real \<times> real"

record face =
  scaledMesh :: "point list"

text \<open>\<open>p[0]\<close>, \<open>p[1]\<close> and \<open>p[2]\<close> of a landmark.\<close>

fun c0 :: "point \<Rightarrow> real" where "c0 (x, y, z) = x"
fun c1 :: "point \<Rightarrow> real" where "c1 (x, y, z) = y"
fun c2 :: "point \<Rightarrow> real" where "c2 (x, y, z) = z"

text \<open>\<open>mesh[i]\<close>: an index past the end reads \<open>undefined\<close>, here \<open>None\<close>.\<close>

definition mesh_at :: "'a list \<Rightarrow> nat \<Rightarrow> 'a option" where
  "mesh_at mesh i = (if i < length mesh then Some (mesh ! i) else None)"

section \<open>Viewport and geometry utilities (utils/viewportUtils.js)\<close>

definition isInViewport :: "real \<Rightarrow> real \<Rightarrow> real \<Rightarrow> nat \<Rightarrow> nat \<Rightarrow> bool" where
  "isInViewport x y radius canvasWidth canvasHeight =
     (x + radius \<ge> 0 \<and> x - radius \<le> real canvasWidth \<and>
      y + radius \<ge> 0 \<and> y - radius \<le> real canvasHeight)"

record face_points =
  noseTip :: "point option"
  leftEye :: "point option"
  rightEye :: "point option"
  foreheadCenter :: "point option"
  leftMouth :: "point option"
  rightMouth :: "point option"
  leftCheek :: "point option"
  rightCheek :: "point option"

text \<open>\<open>getFacePoints\<close> checks nothing: a missing index leaves its point \<open>undefined\<close>.\<close>

definition getFacePoints :: "'f face_scheme \<Rightarrow> face_points" where
  "getFacePoints face =
     (let mesh = scaledMesh face in
      \<lparr>noseTip = mesh_at mesh NOSE_TIP,
       leftEye = mesh_at mesh LEFT_EYE,
       rightEye = mesh_at mesh RIGHT_EYE,
       foreheadCenter = mesh_at mesh FOREHEAD_CENTER,
       leftMouth = mesh_at mesh LEFT_MOUTH,
       rightMouth = mesh_at mesh RIGHT_MOUTH,
       leftCheek = mesh_at mesh LEFT_CHEEK,
       rightCheek = mesh_at mesh RIGHT_CHEEK\<rparr>)"

record face_dimensions =
  faceWidth :: real
  faceHeight :: real
  eyeCenter :: "real \<times> real"

text \<open>
  \<open>getFaceDimensions\<close> reads \<open>[0]\<close> or \<open>[1]\<close> of both eyes, the forehead centre and the
  nose tip; reading it of an \<open>undefined\<close> point throws.
\<close>

definition getFaceDimensions :: "face_points \<Rightarrow> js_error + face_dimensions" where
  "getFaceDimensions points =
     (case (rightEye points, leftEye points, foreheadCenter points, noseTip points) of
        (Some r, Some l, Some f, Some n) \<Rightarrow>
          Inr \<lparr>faceWidth = \<bar>c0 r - c0 l\<bar>,
               faceHeight = \<bar>c1 f - c1 n\<bar>,
               eyeCenter = ((c0 l + c0 r) / 2, (c1 l + c1 r) / 2)\<rparr>
      | _ \<Rightarrow> Inl TypeError)"

definition shouldCullAnimation :: "'f face_scheme \<Rightarrow> nat \<Rightarrow> nat \<Rightarrow> js_error + bool" where
  "shouldCullAnimation face canvasWidth canvasHeight =
     (let points = getFacePoints face in
      case getFaceDimensions points of
        Inl e \<Rightarrow> Inl e
      | Inr dims \<Rightarrow>
          (let maxRadius = faceWidth dims * MAX_FILTER_RADIUS_MULTIPLIER in
           case noseTip points of
             None \<Rightarrow> Inl TypeError
           | Some n \<Rightarrow> Inr (\<not> isInViewport (c0 n) (c1 n) maxRadius canvasWidth canvasHeight)))"

text \<open>
  \<open>bilinearSample\<close>. The buffer is a \<open>Uint8ClampedArray\<close>, a list of bytes; \<open>imageData[i]\<close>
  is \<open>undefined\<close> for an index that is not one of its positions. \<open>v || d\<close> is \<open>d\<close> when
  \<open>v\<close> is \<open>undefined\<close> and also when \<open>v\<close> is \<open>0\<close>.
\<close>

definition imageData_at :: "nat list \<Rightarrow> int \<Rightarrow> nat option" where
  "imageData_at imageData i =
     (if 0 \<le> i \<and> nat i < length imageData then Some (imageData ! nat i) else None)"

fun js_or :: "nat option \<Rightarrow> nat \<Rightarrow> nat" where
  "js_or None d = d"
| "js_or (Some v) d = (if v = 0 then d else v)"

definition getPixel :: "nat list \<Rightarrow> int \<Rightarrow> int \<Rightarrow> int \<Rightarrow> nat list" where
  "getPixel imageData width px py =
     (let index = (py * width + px) * 4 in
      [js_or (imageData_at imageData index) 0,
       js_or (imageData_at imageData (index + 1)) 0,
       js_or (imageData_at imageData (index + 2)) 0,
       js_or (imageData_at imageData (index + 3)) 255])"

definition bilinearSample :: "nat list \<Rightarrow> real \<Rightarrow> real \<Rightarrow> int \<Rightarrow> int \<Rightarrow> int list" where
  "bilinearSample imageData x0 y0 width height =
     (let x = max 0 (min (of_int (width - 1)) x0);
          y = max 0 (min (of_int (height - 1)) y0);
          x1 = \<lfloor>x\<rfloor>;
          y1 = \<lfloor>y\<rfloor>;
          x2 = min (x1 + 1) (width - 1);
          y2 = min (y1 + 1) (height - 1);
          fx = x - of_int x1;
          fy = y - of_int y1;
          p1 = getPixel imageData width x1 y1;
          p2 = getPixel imageData width x2 y1;
          p3 = getPixel imageData width x1 y2;
          p4 = getPixel imageData width x2 y2
      in map (\<lambda>i.
            (let top = real (p1 ! i) * (1 - fx) + real (p2 ! i) * fx;
                 bottom = real (p3 ! i) * (1 - fx) + real (p4 ! i) * fx
             in \<lfloor>(top * (1 - fy) + bottom * fy) + 1 / 2\<rfloor>)) [0, 1, 2, 3])"

section \<open>PerformanceManager (performance/performanceManager.js)\<close>

record 'f performance_manager =
  performanceLevel :: perf_level
  fps :: jsnum
  frameCount :: nat
  lastFrameTime :: real
  dynamicSkipInterval :: int
  memoryPressureLevel :: nat
  lastFaces :: "'f face_scheme list"
  cachedFaces :: "'f face_scheme list option"
  consecutiveStableFrames :: nat

text \<open>
  The constructor. \<open>memoryPressureLevel\<close> is only ever assigned \<open>0\<close>, \<open>1\<close> or \<open>2\<close>
  (\<open>manageTensorMemory\<close>), hence a natural number.
\<close>

definition new_PerformanceManager :: "'f performance_manager" where
  "new_PerformanceManager = \<lparr>performanceLevel = High, fps = Num 0, frameCount = 0,
     lastFrameTime = 0, dynamicSkipInterval = 1, memoryPressureLevel = 0, lastFaces = [],
     cachedFaces = None, consecutiveStableFrames = 0\<rparr>"

definition getQualitySettings :: "'f performance_manager \<Rightarrow> quality_settings" where
  "getQualitySettings this =
     (let settings = PERFORMANCE (performanceLevel this) in
      if memoryPressureLevel this > 0 then
        settings\<lparr>skipFrames := min (skipFrames settings + int (memoryPressureLevel this)) 5,
                 particleCount := max (particleCount settings - int (memoryPressureLevel this)) 1,
                 shadowBlur := max (shadowBlur settings - int (memoryPressureLevel this) * 2) 0\<rparr>
      else settings)"

text \<open>
  \<open>updateFPS(deltaTime)\<close>. The tier's step down is the source's
  \<open>if (level === 'high') ... else if (level === 'medium') ...\<close>.
\<close>

fun degrade :: "perf_level \<Rightarrow> perf_level" where
  "degrade High = Medium"
| "degrade Medium = Low"
| "degrade Low = Low"

definition updateFPS :: "real \<Rightarrow> 'f performance_manager \<Rightarrow> 'f performance_manager" where
  "updateFPS deltaTime this0 =
     (let this1 = this0\<lparr>frameCount := frameCount this0 + 1\<rparr> in
      if frameCount this1 mod 30 = 0 then
        (let this2 = this1\<lparr>fps := js_round (Num 1000 / Num deltaTime)\<rparr>;
             target = targetFPS (PERFORMANCE (performanceLevel this2)) in
         if fps this2 < Num (of_int (target - 5)) then
           this2\<lparr>dynamicSkipInterval := min (dynamicSkipInterval this2 + 1) 5,
                  performanceLevel := degrade (performanceLevel this2)\<rparr>
         else if Num (of_int (target + 5)) < fps this2 \<and> dynamicSkipInterval this2 > 1 then
           this2\<lparr>dynamicSkipInterval := max (dynamicSkipInterval this2 - 1) 1\<rparr>
         else this2)
      else this1)"

text \<open>A run of the render loop's calls, one frame time after the other.\<close>

fun updateFPS_run :: "real list \<Rightarrow> 'f performance_manager \<Rightarrow> 'f performance_manager" where
  "updateFPS_run [] this = this"
| "updateFPS_run (dt # dts) this = updateFPS_run dts (updateFPS dt this)"

text \<open>
  \<open>interpolateFaces(faces, progress)\<close> returns the faces to draw and replaces the cache.
  An empty array is truthy, so only \<open>null\<close> (\<open>None\<close>) counts as no cache.
\<close>

definition lerp_point :: "point \<Rightarrow> point \<Rightarrow> real \<Rightarrow> point" where
  "lerp_point cachedPoint point progress =
     (c0 cachedPoint + (c0 point - c0 cachedPoint) * progress,
      c1 cachedPoint + (c1 point - c1 cachedPoint) * progress,
      c2 cachedPoint + (c2 point - c2 cachedPoint) * progress)"

definition interpolateFaces ::
  "'f face_scheme list \<Rightarrow> real \<Rightarrow> 'f performance_manager \<Rightarrow>
   'f face_scheme list \<times> 'f performance_manager" where
  "interpolateFaces faces progress this =
     (case cachedFaces this of
        None \<Rightarrow> (faces, this\<lparr>cachedFaces := Some faces\<rparr>)
      | Some cachedList \<Rightarrow>
          if faces = [] then (faces, this\<lparr>cachedFaces := Some faces\<rparr>)
          else
            (map (\<lambda>(index, face).
                if index \<ge> length cachedList then face
                else
                  (let cached = cachedList ! index in
                   face\<lparr>scaledMesh :=
                     map (\<lambda>(pointIndex, point).
                        if pointIndex \<ge> length (scaledMesh cached) then point
                        else lerp_point (scaledMesh cached ! pointIndex) point progress)
                       (enumerate 0 (scaledMesh face))\<rparr>))
               (enumerate 0 faces),
             this\<lparr>cachedFaces := Some faces\<rparr>))"

section \<open>MorphFilter (filters/MorphFilter.js)\<close>

text \<open>The constructor's field values.\<close>

definition new_MorphFilter :: morph_filter where
  "new_MorphFilter = \<lparr>intensity = 1, eyeScaleFactor = 25 / 10, mouthScaleFactor = 22 / 10,
     faceSlimFactor = 85 / 100, jawReductionFactor = 9 / 10\<rparr>"

definition adjustForPerformance :: "perf_level \<Rightarrow> morph_filter \<Rightarrow> morph_filter" where
  "adjustForPerformance level this =
     (let config = MORPH level in
      this\<lparr>intensity := intensity config,
           eyeScaleFactor := eyeScaleFactor config,
           mouthScaleFactor := mouthScaleFactor config,
           faceSlimFactor := faceSlimFactor config,
           jawReductionFactor := jawReductionFactor config\<rparr>)"

record region =
  minX :: int
  minY :: int
  width :: int
  height :: int

definition calculateProcessingRegion ::
  "real \<times> real \<Rightarrow> real \<Rightarrow> real \<Rightarrow> nat \<Rightarrow> nat \<Rightarrow> perf_level \<Rightarrow> region" where
  "calculateProcessingRegion = (\<lambda>eyeCenter faceWidth faceHeight canvasWidth canvasHeight level.
      let config = MORPH level;
          padding = max faceWidth faceHeight * paddingMultiplier config;
          minX = max 0 \<lfloor>fst eyeCenter - faceWidth * faceMultiplier config - padding\<rfloor>;
          maxX = min (int canvasWidth) \<lceil>fst eyeCenter + faceWidth * faceMultiplier config + padding\<rceil>;
          minY = max 0 \<lfloor>snd eyeCenter - faceHeight * heightMultiplier config - padding\<rfloor>;
          maxY = min (int canvasHeight) \<lceil>snd eyeCenter + faceHeight * heightMultiplier config + padding\<rceil>
      in \<lparr>minX = minX, minY = minY, width = maxX - minX, height = maxY - minY\<rparr>)"

record landmarks =
  leftEyeCenter :: "point option"
  rightEyeCenter :: "point option"
  leftEyeInner :: "point option"
  leftEyeOuter :: "point option"
  faceLeft :: "point option"
  faceRight :: "point option"
  chinTip :: "point option"
  foreheadCenter :: "point option"
  mouthLeftCorner :: "point option"
  mouthRightCorner :: "point option"
  mouthTopCenter :: "point option"
  mouthBottomCenter :: "point option"
  mouthCenter :: "(real \<times> real) option"

text \<open>\<open>a || b\<close> on two mesh reads: a landmark is an array, hence truthy.\<close>

fun or_else :: "'a option \<Rightarrow> 'a option \<Rightarrow> 'a option" where
  "or_else (Some a) _ = Some a"
| "or_else None b = b"

definition getMorphingLandmarks :: "'f face_scheme \<Rightarrow> landmarks" where
  "getMorphingLandmarks face =
     (let mesh = scaledMesh face;
          mouthLeft = mesh_at mesh MOUTH_LEFT_CORNER;
          mouthRight = mesh_at mesh MOUTH_RIGHT_CORNER
      in \<lparr>leftEyeCenter = or_else (mesh_at mesh LEFT_EYE_CENTER) (mesh_at mesh LEFT_EYE),
          rightEyeCenter = or_else (mesh_at mesh RIGHT_EYE_CENTER) (mesh_at mesh RIGHT_EYE),
          leftEyeInner = mesh_at mesh LEFT_EYE_INNER,
          leftEyeOuter = mesh_at mesh LEFT_EYE_OUTER,
          faceLeft = mesh_at mesh FACE_LEFT,
          faceRight = mesh_at mesh FACE_RIGHT,
          chinTip = mesh_at mesh CHIN_TIP,
          foreheadCenter = mesh_at mesh FOREHEAD_CENTER,
          mouthLeftCorner = mouthLeft,
          mouthRightCorner = mouthRight,
          mouthTopCenter = mesh_at mesh MOUTH_TOP_CENTER,
          mouthBottomCenter = mesh_at mesh MOUTH_BOTTOM_CENTER,
          mouthCenter =
            (case (mouthLeft, mouthRight) of
               (Some l, Some r) \<Rightarrow> Some ((c0 l + c0 r) / 2, (c1 l + c1 r) / 2)
             | _ \<Rightarrow> None)\<rparr>)"

text \<open>
  The three influence functions. The arithmetic is the source's, on JavaScript numbers,
  since it divides by radii that can be zero. \<open>calculateEyeInfluence\<close> and
  \<open>calculateFaceSlimInfluence\<close> read landmarks without a check and can throw;
  \<open>calculateMouthInfluence\<close> checks every landmark it reads.
\<close>

definition calculateEyeInfluence ::
  "morph_filter \<Rightarrow> real \<Rightarrow> real \<Rightarrow> point option \<Rightarrow> landmarks \<Rightarrow> js_error + jsnum" where
  "calculateEyeInfluence = (\<lambda>this x y eyeCenter lm.
      case eyeCenter of
        None \<Rightarrow> Inr (Num 0)
      | Some ec \<Rightarrow>
          (let distance = js_sqrt (js_pow (Num x - Num (c0 ec)) 2 + js_pow (Num y - Num (c1 ec)) 2) in
           case (leftEyeOuter lm, leftEyeInner lm) of
             (Some outer, Some inner) \<Rightarrow>
               (let baseEyeRadius = \<bar>Num (c0 outer) - Num (c0 inner)\<bar> * Num EYE_REGION_MULTIPLIER;
                    eyeRadius = baseEyeRadius *
                      Num (if eyeScaleFactor this > 2 then EYE_EXTREME_MULTIPLIER else 1)
                in if eyeRadius < distance then Inr (Num 0)
                   else
                     (let normalizedDistance = distance / eyeRadius in
                      Inr (if eyeScaleFactor this > 2
                           then js_pow (js_cos (normalizedDistance * Num pi / Num 2)) (7 / 10)
                           else js_cos (normalizedDistance * Num pi / Num 2))))
           | _ \<Rightarrow> Inl TypeError))"

definition calculateFaceSlimInfluence :: "real \<Rightarrow> real \<Rightarrow> landmarks \<Rightarrow> js_error + jsnum" where
  "calculateFaceSlimInfluence x y lm =
     (case (faceRight lm, faceLeft lm, foreheadCenter lm, chinTip lm) of
        (Some fr, Some fl, Some fh, Some chin) \<Rightarrow>
          (let faceWidth = \<bar>Num (c0 fr) - Num (c0 fl)\<bar>;
               faceHeight = \<bar>Num (c1 fh) - Num (c1 chin)\<bar>;
               faceCenter = (Num (c0 fl) + Num (c0 fr)) / Num 2;
               faceCenterY = (Num (c1 fh) + Num (c1 chin)) / Num 2;
               distanceFromCenterX = \<bar>Num x - faceCenter\<bar>;
               distanceFromCenterY = \<bar>Num y - faceCenterY\<bar>
           in if faceWidth * Num FACE_WIDTH_INFLUENCE < distanceFromCenterX \<or>
                 faceHeight * Num FACE_HEIGHT_INFLUENCE < distanceFromCenterY
              then Inr (Num 0)
              else
                (let horizontalInfluence =
                       js_max (Num 0) (Num 1 - distanceFromCenterX / (faceWidth * Num (3 / 10)));
                     verticalInfluence =
                       js_max (Num 0) (Num 1 - distanceFromCenterY / (faceHeight * Num (6 / 10)))
                 in Inr (horizontalInfluence * verticalInfluence * Num FACE_SLIM_INTENSITY)))
      | _ \<Rightarrow> Inl TypeError)"

definition calculateMouthInfluence ::
  "morph_filter \<Rightarrow> real \<Rightarrow> real \<Rightarrow> (real \<times> real) option \<Rightarrow> landmarks \<Rightarrow> jsnum" where
  "calculateMouthInfluence = (\<lambda>this x y mouthCenter lm.
      case (mouthCenter, mouthLeftCorner lm, mouthRightCorner lm) of
        (Some mc, Some ml, Some mr) \<Rightarrow>
          (let distance = js_sqrt (js_pow (Num x - Num (fst mc)) 2 + js_pow (Num y - Num (snd mc)) 2);
               mouthWidth = \<bar>Num (c0 mr) - Num (c0 ml)\<bar>;
               mouthHeight =
                 (case (mouthBottomCenter lm, mouthTopCenter lm) of
                    (Some mb, Some mt) \<Rightarrow> \<bar>Num (c1 mb) - Num (c1 mt)\<bar>
                  | _ \<Rightarrow> mouthWidth * Num (3 / 10));
               scaleMultiplier =
                 Num (if mouthScaleFactor this > 18 / 10 then MOUTH_EXTREME_MULTIPLIER else 1);
               mouthRadiusX = mouthWidth * Num MOUTH_REGION_MULTIPLIER * scaleMultiplier;
               mouthRadiusY =
                 js_max (mouthHeight * Num (15 / 10)) (mouthWidth * Num (5 / 10)) * scaleMultiplier;
               normalizedX = (Num x - Num (fst mc)) / mouthRadiusX;
               normalizedY = (Num y - Num (snd mc)) / mouthRadiusY;
               ellipticalDistance = js_sqrt (normalizedX * normalizedX + normalizedY * normalizedY)
           in if Num 1 < ellipticalDistance then Num 0
              else if mouthScaleFactor this > 18 / 10
              then js_pow (js_cos (ellipticalDistance * Num pi / Num 2)) (6 / 10)
              else js_cos (ellipticalDistance * Num pi / Num 2))
      | _ \<Rightarrow> Num 0)"

text \<open>
  \<open>inverseTransformPoint\<close>. Its four blocks are, in order: reverse face slimming, reverse
  enlargement of the left eye, of the right eye and of the mouth. The three enlargement
  blocks are the same code on a different centre, factor and influence, written once here.
  Each block reads the centre only when its influence is positive. Every arithmetic
  result is rounded to a double (\<open>js_double\<close>), operation by operation, in the source's
  order of evaluation.
\<close>

definition reverse_face_slimming ::
  "morph_filter \<Rightarrow> jsnum \<Rightarrow> jsnum \<Rightarrow> jsnum \<times> jsnum \<Rightarrow> jsnum \<times> jsnum" where
  "reverse_face_slimming this faceCenter faceInfluence p =
     (let newX = fst p; newY = snd p in
      if Num 0 < faceInfluence then
        (let compressionFactor =
               js_double (Num 1 -
                 js_double (js_double (js_double (Num 1 - Num (faceSlimFactor this)) * faceInfluence)
                   * Num (intensity this)));
             expansionFactor = js_double (Num 1 / compressionFactor)
         in (js_double (faceCenter + js_double (js_double (newX - faceCenter) * expansionFactor)),
             newY))
      else (newX, newY))"

definition reverse_enlargement ::
  "real \<Rightarrow> real \<Rightarrow> jsnum \<Rightarrow> (real \<times> real) option \<Rightarrow> jsnum \<times> jsnum \<Rightarrow>
   js_error + jsnum \<times> jsnum" where
  "reverse_enlargement scaleFactor intens influence center p =
     (let newX = fst p; newY = snd p in
      if Num 0 < influence then
        (case center of
           None \<Rightarrow> Inl TypeError
         | Some c \<Rightarrow>
             (let scale =
                    js_double (Num 1 +
                      js_double (js_double (js_double (Num scaleFactor - Num 1) * influence)
                        * Num intens));
                  shrinkFactor = js_double (Num 1 / scale);
                  centerX = Num (fst c);
                  centerY = Num (snd c)
              in Inr (js_double (centerX + js_double (js_double (newX - centerX) * shrinkFactor)),
                      js_double (centerY + js_double (js_double (newY - centerY) * shrinkFactor)))))
      else Inr (newX, newY))"

definition xy :: "point \<Rightarrow> real \<times> real" where
  "xy p = (c0 p, c1 p)"

definition inverseTransformPoint ::
  "morph_filter \<Rightarrow> real \<Rightarrow> real \<Rightarrow> landmarks \<Rightarrow> js_error + jsnum \<times> jsnum" where
  "inverseTransformPoint this x y lm =
     (case (faceLeft lm, faceRight lm) of
        (Some fl, Some fr) \<Rightarrow>
          (let faceCenter = js_double (js_double (Num (c0 fl) + Num (c0 fr)) / Num 2) in
           case calculateFaceSlimInfluence x y lm of
             Inl e \<Rightarrow> Inl e
           | Inr faceInfluence \<Rightarrow>
               (let slimmed = reverse_face_slimming this faceCenter faceInfluence (Num x, Num y) in
                case calculateEyeInfluence this x y (leftEyeCenter lm) lm of
                  Inl e \<Rightarrow> Inl e
                | Inr leftEyeInfluence \<Rightarrow>
                    (case calculateEyeInfluence this x y (rightEyeCenter lm) lm of
                       Inl e \<Rightarrow> Inl e
                     | Inr rightEyeInfluence \<Rightarrow>
                         (case reverse_enlargement (eyeScaleFactor this) (intensity this)
                                 leftEyeInfluence (map_option xy (leftEyeCenter lm)) slimmed of
                            Inl e \<Rightarrow> Inl e
                          | Inr afterLeftEye \<Rightarrow>
                              (case reverse_enlargement (eyeScaleFactor this) (intensity this)
                                      rightEyeInfluence (map_option xy (rightEyeCenter lm))
                                      afterLeftEye of
                                 Inl e \<Rightarrow> Inl e
                               | Inr afterRightEye \<Rightarrow>
                                   reverse_enlargement (mouthScaleFactor this) (intensity this)
                                     (calculateMouthInfluence this x y (mouthCenter lm) lm)
                                     (mouthCenter lm) afterRightEye)))))
      | _ \<Rightarrow> Inl TypeError)"

text \<open>
  The outcome of a call that can throw: the state it leaves, and the exception if one
  escaped.
\<close>

datatype 'w completion = Normal 'w | Abrupt js_error 'w

text \<open>\<open>try { ... } catch (error) { }\<close>: the exception is dropped, the state stays.\<close>

fun try_catch :: "'w completion \<Rightarrow> 'w" where
  "try_catch (Normal w) = w"
| "try_catch (Abrupt e w) = w"

text \<open>
  What a filter's \<open>draw\<close> receives from the renderer: the quality settings and their
  optional property \<open>performanceLevel\<close> (\<open>None\<close> when the object has none, as is the case of
  every object \<open>getQualitySettings\<close> returns).
\<close>

record draw_settings = quality_settings +
  qsPerformanceLevel :: "perf_level option"

text \<open>
  \<open>MorphFilter.draw\<close>. The state it works on is the filter's own fields and the canvas.
  The body of the \<open>try\<close> block (read the region's pixels, map each one through
  \<open>inverseTransformPoint\<close> and \<open>bilinearSample\<close>, write the region back, any exception
  swallowed) is the parameter \<open>morphPixels\<close>: what it computes is no part of the
  properties below, only whether it runs.
\<close>

record 'c morph_world =
  morphFilter :: morph_filter
  canvas :: 'c

definition MorphFilter_draw ::
  "(region \<Rightarrow> landmarks \<Rightarrow> morph_filter \<Rightarrow> 'c \<Rightarrow> 'c) \<Rightarrow> nat \<Rightarrow> nat \<Rightarrow>
   'f face_scheme \<Rightarrow> real \<Rightarrow> draw_settings \<Rightarrow> 'c morph_world \<Rightarrow> 'c morph_world completion" where
  "MorphFilter_draw morphPixels canvasWidth canvasHeight face time qualitySettings w =
     (case qsPerformanceLevel qualitySettings of
        None \<Rightarrow> Abrupt TypeError w
      | Some level \<Rightarrow>
          (let this = adjustForPerformance level (morphFilter w);
               w1 = w\<lparr>morphFilter := this\<rparr>;
               lm = getMorphingLandmarks face;
               points = getFacePoints face
           in case getFaceDimensions points of
                Inl e \<Rightarrow> Abrupt e w1
              | Inr dims \<Rightarrow>
                  (let region = calculateProcessingRegion (eyeCenter dims) (faceWidth dims)
                         (faceHeight dims) canvasWidth canvasHeight level
                   in if width region \<le> 0 \<or> height region \<le> 0 then Normal w1
                      else Normal (w1\<lparr>canvas := morphPixels region lm this (canvas w1)\<rparr>))))"

section \<open>FilterRenderer (filters/FilterRenderer.js)\<close>

text \<open>
  A filter is its \<open>draw\<close> method, acting on a state \<open>'w\<close> that holds the canvas and the
  filter objects. The canvas size is what \<open>render\<close> reads from \<open>ctx.canvas\<close>.
\<close>

type_synonym ('f, 'w) face_filter = "'f face_scheme \<Rightarrow> real \<Rightarrow> draw_settings \<Rightarrow> 'w \<Rightarrow> 'w completion"

record ('f, 'w) filter_renderer =
  filters :: "string \<rightharpoonup> ('f, 'w) face_filter"
  currentFilterName :: string
  animationTime :: real

text \<open>
  The callback of \<open>faces.forEach\<close>, face after face. The cull test is made before the
  \<open>try\<close> block, so an exception of the test leaves the loop and \<open>render\<close>; an exception
  of \<open>draw\<close> is caught and the loop goes on.
\<close>

fun forEach_face ::
  "('f face_scheme \<Rightarrow> 'w \<Rightarrow> 'w completion) \<Rightarrow> nat \<Rightarrow> nat \<Rightarrow> 'f face_scheme list \<Rightarrow> 'w \<Rightarrow>
   'w completion" where
  "forEach_face draw canvasWidth canvasHeight [] w = Normal w"
| "forEach_face draw canvasWidth canvasHeight (face # rest) w =
     (case shouldCullAnimation face canvasWidth canvasHeight of
        Inl e \<Rightarrow> Abrupt e w
      | Inr cull \<Rightarrow>
          if cull then forEach_face draw canvasWidth canvasHeight rest w
          else forEach_face draw canvasWidth canvasHeight rest (try_catch (draw face w)))"

definition render ::
  "('f, 'w) filter_renderer \<Rightarrow> nat \<Rightarrow> nat \<Rightarrow> 'f face_scheme list \<Rightarrow> draw_settings \<Rightarrow> 'w \<Rightarrow>
   'w completion" where
  "render this canvasWidth canvasHeight faces qualitySettings w =
     (if currentFilterName this = ''none'' \<or> faces = [] then Normal w
      else
        (case filters this (currentFilterName this) of
           None \<Rightarrow> Normal w
         | Some currentFilter \<Rightarrow>
             forEach_face
               (\<lambda>face. currentFilter face (animationTime this)
                  (qualitySettings\<lparr>qsPerformanceLevel :=
                     Some (case qsPerformanceLevel qualitySettings of
                             None \<Rightarrow> High
                           | Some level \<Rightarrow> level)\<rparr>))
               canvasWidth canvasHeight faces w))"

section \<open>Notions of the specification\<close>

text \<open>A number that is finite or NaN: what an influence function can return.\<close>

definition finite_or_NaN :: "jsnum \<Rightarrow> bool" where
  "finite_or_NaN v = (case v of Num a \<Rightarrow> True | NaN \<Rightarrow> True | _ \<Rightarrow> False)"

text \<open>
  The landmarks \<open>inverseTransformPoint\<close> and the influence functions read without a
  check are there.
\<close>

definition morph_landmarks_present :: "landmarks \<Rightarrow> bool" where
  "morph_landmarks_present lm =
     (faceLeft lm \<noteq> None \<and> faceRight lm \<noteq> None \<and> landmarks.foreheadCenter lm \<noteq> None \<and>
      chinTip lm \<noteq> None \<and> leftEyeOuter lm \<noteq> None \<and> leftEyeInner lm \<noteq> None)"

text \<open>The order of the tiers, \<open>LOW\<close> the lowest.\<close>

fun tier_rank :: "perf_level \<Rightarrow> nat" where
  "tier_rank High = 2"
| "tier_rank Medium = 1"
| "tier_rank Low = 0"





section \<open>Example inputs\<close>

text \<open>
  A renderer whose only filter counts its \<open>draw\<close> calls, with that filter selected; the
  state is the count.
\<close>

definition count_draws :: "(unit, nat) face_filter" where
  "count_draws face time qualitySettings n = Normal (Suc n)"

definition demo_renderer :: "(unit, nat) filter_renderer" where
  "demo_renderer = \<lparr>filters = [''bouncing_balls'' \<mapsto> count_draws],
     currentFilterName = ''bouncing_balls'', animationTime = 0\<rparr>"

text \<open>The settings \<open>getQualitySettings\<close> returns on tier \<open>HIGH\<close> without memory pressure.\<close>

definition demo_settings :: draw_settings where
  "demo_settings = quality_settings.extend (PERFORMANCE High) \<lparr>qsPerformanceLevel = None\<rparr>"

text \<open>
  Faces for a 640 by 480 canvas: a full mesh with the eyes at \<open>(220, 200)\<close> and
  \<open>(420, 200)\<close> and the nose tip at \<open>(320, 260)\<close>; a face far to the left of the canvas;
  a mesh of 100 points, which has no index 263; a full mesh whose landmarks all coincide.
\<close>

definition onscreen_face :: face where
  "onscreen_face = \<lparr>scaledMesh =
     (replicate 468 (320, 240, 0))
       [1 := (320, 260, 0), 9 := (320, 150, 0), 33 := (220, 200, 0), 263 := (420, 200, 0),
        133 := (270, 200, 0), 172 := (180, 300, 0), 397 := (460, 300, 0), 175 := (320, 400, 0),
        61 := (280, 330, 0), 291 := (360, 330, 0), 13 := (320, 320, 0), 17 := (320, 340, 0)]\<rparr>"

definition offscreen_face :: face where
  "offscreen_face = \<lparr>scaledMesh =
     (replicate 468 (-500, 240, 0))
       [1 := (-500, 260, 0), 9 := (-500, 150, 0), 33 := (-600, 200, 0), 263 := (-400, 200, 0)]\<rparr>"

definition short_face :: face where
  "short_face = \<lparr>scaledMesh = replicate 100 (320, 240, 0)\<rparr>"

definition degenerate_face :: face where
  "degenerate_face = \<lparr>scaledMesh = replicate 468 (320, 240, 0)\<rparr>"

text \<open>
  Two snapshots: a cache of two faces, and a new detection of one face whose mesh is one
  landmark longer than the cached face's.
\<close>

definition cached_snapshot :: "face list" where
  "cached_snapshot = [\<lparr>scaledMesh = [(0, 10, 20)]\<rparr>, \<lparr>scaledMesh = [(1, 1, 1)]\<rparr>]"

definition new_snapshot :: "face list" where
  "new_snapshot = [\<lparr>scaledMesh = [(10, 20, 30), (7, 7, 7)]\<rparr>]"

section \<open>Properties of the performance controller\<close>

lemma degrade_rank: "tier_rank (degrade l) \<le> tier_rank l"
  by (cases l) simp_all

lemma degrade_one_step: "tier_rank l \<le> Suc (tier_rank (degrade l))"
  by (cases l) simp_all

lemma updateFPS_level:
  "performanceLevel (updateFPS dt this) =
     (if (frameCount this + 1) mod 30 = 0 \<and>
         js_round (Num 1000 / Num dt) <
           Num (of_int (targetFPS (PERFORMANCE (performanceLevel this)) - 5))
      then degrade (performanceLevel this) else performanceLevel this)"
  by (simp add: updateFPS_def Let_def)

lemma updateFPS_skip:
  "dynamicSkipInterval (updateFPS dt this) =
     (if (frameCount this + 1) mod 30 = 0 then
        (if js_round (Num 1000 / Num dt) <
              Num (of_int (targetFPS (PERFORMANCE (performanceLevel this)) - 5))
         then min (dynamicSkipInterval this + 1) 5
         else if Num (of_int (targetFPS (PERFORMANCE (performanceLevel this)) + 5)) <
                   js_round (Num 1000 / Num dt)
                 \<and> dynamicSkipInterval this > 1
         then max (dynamicSkipInterval this - 1) 1
         else dynamicSkipInterval this)
      else dynamicSkipInterval this)"
  by (simp add: updateFPS_def Let_def)

lemma updateFPS_run_rank:
  "tier_rank (performanceLevel (updateFPS_run dts this)) \<le> tier_rank (performanceLevel this)"
proof (induction dts arbitrary: this)
  case Nil
  show ?case by simp
next
  case (Cons dt dts)
  have "tier_rank (performanceLevel (updateFPS dt this)) \<le> tier_rank (performanceLevel this)"
    by (simp add: updateFPS_level degrade_rank)
  with Cons.IH [of "updateFPS dt this"] show ?case by simp
qed

lemma skip_inv_step:
  "1 \<le> dynamicSkipInterval this \<and> dynamicSkipInterval this \<le> 5 \<Longrightarrow>
   1 \<le> dynamicSkipInterval (updateFPS dt this) \<and> dynamicSkipInterval (updateFPS dt this) \<le> 5"
  by (simp add: updateFPS_skip)

lemma skip_inv_run:
  "1 \<le> dynamicSkipInterval this \<and> dynamicSkipInterval this \<le> 5 \<Longrightarrow>
   1 \<le> dynamicSkipInterval (updateFPS_run dts this) \<and>
   dynamicSkipInterval (updateFPS_run dts this) \<le> 5"
proof (induction dts arbitrary: this)
  case Nil
  then show ?case by simp
next
  case (Cons dt dts)
  from Cons.prems
  have "1 \<le> dynamicSkipInterval (updateFPS dt this) \<and> dynamicSkipInterval (updateFPS dt this) \<le> 5"
    by (rule skip_inv_step)
  then show ?case using Cons.IH by simp
qed

text \<open>
  Claim C4. One \<open>updateFPS\<close> step changes the tier only at a sampling instant (the frame
  count reaching a multiple of 30) whose rounded FPS is below the tier's target minus 5,
  and then by the single step \<open>HIGH \<rightarrow> MEDIUM\<close>, \<open>MEDIUM \<rightarrow> LOW\<close>, \<open>LOW\<close> staying \<open>LOW\<close>; so a
  step lowers the rank of the tier by at most one. Over any sequence of steps, with any
  frame times, the tier is never above the tier the sequence started with, and a sequence
  started at \<open>LOW\<close> ends at \<open>LOW\<close>.
\<close>

theorem updateFPS_tier_single_steps_never_raised:
  fixes this :: "'f performance_manager"
  shows "performanceLevel (updateFPS dt this) =
           (if (frameCount this + 1) mod 30 = 0 \<and>
               js_round (Num 1000 / Num dt) <
                 Num (of_int (targetFPS (PERFORMANCE (performanceLevel this)) - 5))
            then degrade (performanceLevel this) else performanceLevel this)
       \<and> degrade High = Medium \<and> degrade Medium = Low \<and> degrade Low = Low
       \<and> tier_rank (performanceLevel (updateFPS dt this)) \<le> tier_rank (performanceLevel this)
       \<and> tier_rank (performanceLevel this) \<le> Suc (tier_rank (performanceLevel (updateFPS dt this)))
       \<and> tier_rank (performanceLevel (updateFPS_run dts this)) \<le> tier_rank (performanceLevel this)
       \<and> performanceLevel (updateFPS_run dts (this\<lparr>performanceLevel := Low\<rparr>)) = Low"
proof -
  have low: "performanceLevel (updateFPS_run dts (this\<lparr>performanceLevel := Low\<rparr>)) = Low"
  proof -
    have "tier_rank (performanceLevel (updateFPS_run dts (this\<lparr>performanceLevel := Low\<rparr>))) \<le> 0"
      using updateFPS_run_rank [of dts "this\<lparr>performanceLevel := Low\<rparr>"] by simp
    then show ?thesis
      by (cases "performanceLevel (updateFPS_run dts (this\<lparr>performanceLevel := Low\<rparr>))") simp_all
  qed
  have down: "tier_rank (performanceLevel (updateFPS dt this)) \<le> tier_rank (performanceLevel this)"
    by (simp add: updateFPS_level degrade_rank)
  have one: "tier_rank (performanceLevel this) \<le> Suc (tier_rank (performanceLevel (updateFPS dt this)))"
    by (simp add: updateFPS_level degrade_one_step)
  show ?thesis
    using low down one updateFPS_run_rank [of dts this] updateFPS_level [of dt this] by simp
qed

text \<open>
  Claim C5. From the constructor's state, after any sequence of \<open>updateFPS\<close> steps with any
  frame times, the dynamic skip interval is in \<open>[1, 5]\<close>. A step changes it only at a
  sampling instant: a rounded FPS below the target minus 5 sets it to \<open>min (k + 1) 5\<close>;
  otherwise a rounded FPS above the target plus 5, when \<open>k > 1\<close>, sets it to
  \<open>max (k - 1) 1\<close>; otherwise it stays \<open>k\<close>.
\<close>

theorem updateFPS_skip_interval_bounds:
  "1 \<le> dynamicSkipInterval (updateFPS_run dts (new_PerformanceManager :: 'f performance_manager))
   \<and> dynamicSkipInterval (updateFPS_run dts (new_PerformanceManager :: 'f performance_manager)) \<le> 5
   \<and> dynamicSkipInterval (updateFPS dt (this :: 'f performance_manager)) =
       (if (frameCount this + 1) mod 30 = 0 then
          (if js_round (Num 1000 / Num dt) <
                Num (of_int (targetFPS (PERFORMANCE (performanceLevel this)) - 5))
           then min (dynamicSkipInterval this + 1) 5
           else if Num (of_int (targetFPS (PERFORMANCE (performanceLevel this)) + 5)) <
                     js_round (Num 1000 / Num dt)
                   \<and> dynamicSkipInterval this > 1
           then max (dynamicSkipInterval this - 1) 1
           else dynamicSkipInterval this)
        else dynamicSkipInterval this)"
proof -
  have "1 \<le> dynamicSkipInterval (new_PerformanceManager :: 'f performance_manager) \<and>
        dynamicSkipInterval (new_PerformanceManager :: 'f performance_manager) \<le> 5"
    by (simp add: new_PerformanceManager_def)
  from skip_inv_run [OF this, of dts] updateFPS_skip [of dt this] show ?thesis by simp
qed

text \<open>
  Claim C9. \<open>getQualitySettings\<close> returns the active tier's entry of \<open>PERFORMANCE\<close> with
  skip-frames raised by the pressure level and capped at 5, particle-count lowered by the
  pressure level and kept at 1 or more, shadow-blur lowered by twice the pressure level
  and kept at 0 or more, every other setting as in the entry. Skip-frames is never below
  the entry's and never above 5, particle-count never above the entry's and never below
  1, shadow-blur never above the entry's and never below 0. Pressure level 2 on tier
  \<open>MEDIUM\<close> gives skip-frames 4, particle-count 4 and shadow-blur 1.
\<close>

theorem getQualitySettings_pressure_adjustment:
  fixes this :: "'f performance_manager"
  shows "getQualitySettings this =
      (PERFORMANCE (performanceLevel this))
        \<lparr>skipFrames :=
           min (skipFrames (PERFORMANCE (performanceLevel this)) + int (memoryPressureLevel this)) 5,
         particleCount :=
           max (particleCount (PERFORMANCE (performanceLevel this)) - int (memoryPressureLevel this)) 1,
         shadowBlur :=
           max (shadowBlur (PERFORMANCE (performanceLevel this)) - int (memoryPressureLevel this) * 2) 0\<rparr>
    \<and> skipFrames (PERFORMANCE (performanceLevel this)) \<le> skipFrames (getQualitySettings this)
    \<and> skipFrames (getQualitySettings this) \<le> 5
    \<and> 1 \<le> particleCount (getQualitySettings this)
    \<and> particleCount (getQualitySettings this) \<le> particleCount (PERFORMANCE (performanceLevel this))
    \<and> 0 \<le> shadowBlur (getQualitySettings this)
    \<and> shadowBlur (getQualitySettings this) \<le> shadowBlur (PERFORMANCE (performanceLevel this))
    \<and> getQualitySettings (this\<lparr>performanceLevel := Medium, memoryPressureLevel := 2\<rparr>) =
        \<lparr>maxFaces = 3, skipFrames = 4, shadowBlur = 1, particleCount = 4,
         animationSpeed = 8 / 10, cleanupInterval = 40, targetFPS = 24,
         detectionConfidence = 6 / 10\<rparr>"
  by (cases "performanceLevel this") (simp_all add: getQualitySettings_def Let_def)

section \<open>Properties of the renderer\<close>

lemma cull_outside:
  assumes "263 < length (scaledMesh face)"
    and "n = scaledMesh face ! 1"
    and "r = \<bar>c0 (scaledMesh face ! 263) - c0 (scaledMesh face ! 33)\<bar> * (8 / 10)"
    and "c0 n + r < 0 \<or> real cw < c0 n - r \<or> c1 n + r < 0 \<or> real ch < c1 n - r"
  shows "shouldCullAnimation face cw ch = Inr True"
  using assms
  by (auto simp add: shouldCullAnimation_def getFacePoints_def getFaceDimensions_def mesh_at_def
      isInViewport_def Let_def NOSE_TIP_def LEFT_EYE_def RIGHT_EYE_def FOREHEAD_CENTER_def
      MAX_FILTER_RADIUS_MULTIPLIER_def)

lemma forEach_face_culled:
  "shouldCullAnimation face cw ch = Inr True \<Longrightarrow>
   forEach_face draw cw ch (xs @ face # ys) w = forEach_face draw cw ch (xs @ ys) w"
  by (induction xs arbitrary: w) (auto split: sum.splits)

text \<open>
  An exception of \<open>draw\<close> stays with its face: the loop goes on with the next face, from
  the state the failed \<open>draw\<close> left.
\<close>

lemma forEach_face_draw_error_isolated:
  "shouldCullAnimation face cw ch = Inr False \<Longrightarrow> draw face w = Abrupt e w' \<Longrightarrow>
   forEach_face draw cw ch (face # rest) w = forEach_face draw cw ch rest w'"
  by simp

lemma cull_onscreen_face: "shouldCullAnimation onscreen_face 640 480 = Inr False"
  by (simp add: shouldCullAnimation_def getFacePoints_def getFaceDimensions_def mesh_at_def
      isInViewport_def Let_def NOSE_TIP_def LEFT_EYE_def RIGHT_EYE_def FOREHEAD_CENTER_def
      MAX_FILTER_RADIUS_MULTIPLIER_def onscreen_face_def)

lemma cull_short_face: "shouldCullAnimation short_face 640 480 = Inl TypeError"
  by (simp add: shouldCullAnimation_def getFacePoints_def getFaceDimensions_def mesh_at_def
      Let_def NOSE_TIP_def LEFT_EYE_def RIGHT_EYE_def FOREHEAD_CENTER_def short_face_def)

text \<open>
  Claim C1, evaluated where it fails. The faces are a mesh of 100 points followed by a full
  face in the middle of a 640 by 480 canvas. \<open>getFacePoints\<close> reports nothing for the short
  mesh, it leaves the right eye \<open>undefined\<close>; the cull test, which \<open>render\<close> makes outside its
  \<open>try\<close> block, then throws a \<open>TypeError\<close> that leaves \<open>render\<close>, and the full face behind it
  is never drawn, although \<open>render\<close> draws it when it is given alone.
\<close>

theorem render_malformed_face_aborts_loop:
  "rightEye (getFacePoints short_face) = None
   \<and> shouldCullAnimation short_face 640 480 = Inl TypeError
   \<and> render demo_renderer 640 480 [short_face, onscreen_face] demo_settings 0 = Abrupt TypeError 0
   \<and> render demo_renderer 640 480 [onscreen_face] demo_settings 0 = Normal 1"
proof -
  have "rightEye (getFacePoints short_face) = None"
    by (simp add: getFacePoints_def mesh_at_def short_face_def RIGHT_EYE_def Let_def)
  moreover
  have "render demo_renderer 640 480 [short_face, onscreen_face] demo_settings 0 = Abrupt TypeError 0"
    by (simp add: render_def demo_renderer_def cull_short_face)
  moreover
  have "render demo_renderer 640 480 [onscreen_face] demo_settings 0 = Normal 1"
    by (simp add: render_def demo_renderer_def cull_onscreen_face count_draws_def)
  ultimately show ?thesis
    using cull_short_face by simp
qed

text \<open>
  Claim C10. Let a face have the landmarks the cull test reads (a mesh longer than index
  263), let \<open>n\<close> be its nose tip and \<open>r\<close> be 0.8 times its face width, and let the square
  of half-side \<open>r\<close> around \<open>n\<close> lie wholly outside the canvas rectangle (left of it, right
  of it, above it or below it). Then the cull test says so, and for every filter the
  renderer's loop and \<open>render\<close> itself end as they end on the list of faces without that
  face: \<open>draw\<close> is not called for it and the state, the canvas in it, is as if the face
  were absent. The morph filter is one such filter: on that face alone, the loop over
  \<open>MorphFilter.draw\<close> leaves the canvas and the filter untouched.
\<close>

theorem render_culls_offscreen_face:
  fixes this :: "('f, 'w) filter_renderer"
    and draw :: "'f face_scheme \<Rightarrow> 'w \<Rightarrow> 'w completion"
    and mw :: "'c morph_world"
  assumes "263 < length (scaledMesh face)"
    and "n = scaledMesh face ! 1"
    and "r = \<bar>c0 (scaledMesh face ! 263) - c0 (scaledMesh face ! 33)\<bar> * (8 / 10)"
    and "c0 n + r < 0 \<or> real cw < c0 n - r \<or> c1 n + r < 0 \<or> real ch < c1 n - r"
  shows "shouldCullAnimation face cw ch = Inr True
    \<and> forEach_face draw cw ch (before @ face # after) w = forEach_face draw cw ch (before @ after) w
    \<and> render this cw ch (before @ face # after) qs w = render this cw ch (before @ after) qs w
    \<and> forEach_face (\<lambda>f. MorphFilter_draw morphPixels cw ch f time ds) cw ch [face] mw = Normal mw"
proof -
  have cull: "shouldCullAnimation face cw ch = Inr True"
    using assms by (rule cull_outside)
  have loop: "forEach_face d cw ch (before @ face # after) v = forEach_face d cw ch (before @ after) v"
    for d :: "'f face_scheme \<Rightarrow> 'w \<Rightarrow> 'w completion" and v
    using cull by (rule forEach_face_culled)
  have whole: "render this cw ch (before @ face # after) qs w = render this cw ch (before @ after) qs w"
    using cull loop by (auto simp add: render_def split: option.splits)
  have morph: "forEach_face (\<lambda>f. MorphFilter_draw morphPixels cw ch f time ds) cw ch [face] mw = Normal mw"
    using cull by simp
  show ?thesis using cull loop whole morph by simp
qed

theorem render_culls_offscreen_face_witness:
  "263 < length (scaledMesh offscreen_face)
   \<and> c0 (scaledMesh offscreen_face ! 1)
       + \<bar>c0 (scaledMesh offscreen_face ! 263) - c0 (scaledMesh offscreen_face ! 33)\<bar> * (8 / 10) < 0
   \<and> shouldCullAnimation offscreen_face 640 480 = Inr True
   \<and> render demo_renderer 640 480 ([onscreen_face] @ offscreen_face # [onscreen_face]) demo_settings 0
       = render demo_renderer 640 480 ([onscreen_face] @ [onscreen_face]) demo_settings 0
   \<and> render demo_renderer 640 480 ([onscreen_face] @ [onscreen_face]) demo_settings 0 = Normal 2"
proof -
  have len: "263 < length (scaledMesh offscreen_face)"
    by (simp add: offscreen_face_def)
  have out: "c0 (scaledMesh offscreen_face ! 1)
       + \<bar>c0 (scaledMesh offscreen_face ! 263) - c0 (scaledMesh offscreen_face ! 33)\<bar> * (8 / 10) < 0"
    by (simp add: offscreen_face_def)
  have two: "render demo_renderer 640 480 ([onscreen_face] @ [onscreen_face]) demo_settings 0 = Normal 2"
    by (simp add: render_def demo_renderer_def cull_onscreen_face count_draws_def)
  have cull: "shouldCullAnimation offscreen_face 640 480 = Inr True"
    by (rule render_culls_offscreen_face [where face = offscreen_face and cw = 640 and ch = 480,
          OF len refl refl disjI1, OF out, THEN conjunct1])
  have same: "render demo_renderer 640 480 ([onscreen_face] @ offscreen_face # [onscreen_face])
        demo_settings 0
      = render demo_renderer 640 480 ([onscreen_face] @ [onscreen_face]) demo_settings 0"
    by (rule render_culls_offscreen_face [where face = offscreen_face and cw = 640 and ch = 480,
          OF len refl refl disjI1, OF out, THEN conjunct2, THEN conjunct2, THEN conjunct1])
  from len out cull same two show ?thesis by blast
qed

section \<open>Properties of the morph filter's region\<close>















section \<open>Properties of the interpolation\<close>

lemma interpolateFaces_cached:
  fixes this :: "'f performance_manager"
  assumes "cachedFaces this = Some A" and "B \<noteq> []"
  shows "fst (interpolateFaces B p this) =
      map (\<lambda>(index, face).
             if index \<ge> length A then face
             else face\<lparr>scaledMesh :=
                    map (\<lambda>(pointIndex, point).
                           if pointIndex \<ge> length (scaledMesh (A ! index)) then point
                           else lerp_point (scaledMesh (A ! index) ! pointIndex) point p)
                      (enumerate 0 (scaledMesh face))\<rparr>)
        (enumerate 0 B)"
    and "cachedFaces (snd (interpolateFaces B p this)) = Some B"
  using assms by (auto simp add: interpolateFaces_def Let_def)

lemma interpolateFaces_only_new:
  fixes this :: "'f performance_manager"
  assumes "cachedFaces this = Some A" and "B \<noteq> []" and "i < length B" and "length A \<le> i"
  shows "fst (interpolateFaces B p this) ! i = B ! i"
  using assms by (simp add: interpolateFaces_cached nth_enumerate_eq)

lemma interpolateFaces_both:
  fixes this :: "'f performance_manager"
  assumes "cachedFaces this = Some A" and "B \<noteq> []" and "i < length B" and "i < length A"
  shows "fst (interpolateFaces B p this) ! i =
      (B ! i)\<lparr>scaledMesh :=
         map (\<lambda>(pointIndex, point).
                if pointIndex \<ge> length (scaledMesh (A ! i)) then point
                else lerp_point (scaledMesh (A ! i) ! pointIndex) point p)
           (enumerate 0 (scaledMesh (B ! i)))\<rparr>"
  using assms by (simp add: interpolateFaces_cached nth_enumerate_eq)

lemma interpolateFaces_point:
  fixes this :: "'f performance_manager"
  assumes "cachedFaces this = Some A" and "B \<noteq> []" and "i < length B" and "i < length A"
    and "j < length (scaledMesh (B ! i))"
  shows "scaledMesh (fst (interpolateFaces B p this) ! i) ! j =
     (if j < length (scaledMesh (A ! i))
      then lerp_point (scaledMesh (A ! i) ! j) (scaledMesh (B ! i) ! j) p
      else scaledMesh (B ! i) ! j)"
  using assms by (simp add: interpolateFaces_both nth_enumerate_eq)

text \<open>
  Claim C6 as stated fails for a face present only in the cached snapshot: with a cache of
  two faces and a new snapshot of one face, the result has one face, the blend at index 0;
  the cached face at index 1 does not pass through, it is absent.
\<close>

theorem interpolateFaces_drops_cached_only_face:
  "length cached_snapshot = 2
   \<and> fst (interpolateFaces new_snapshot INTERPOLATION_FACTOR
        (new_PerformanceManager\<lparr>cachedFaces := Some cached_snapshot\<rparr>))
     = [\<lparr>scaledMesh = [(3, 13, 23), (7, 7, 7)]\<rparr>]"
  by (simp add: interpolateFaces_def new_snapshot_def cached_snapshot_def
      INTERPOLATION_FACTOR_def lerp_point_def enumerate_eq_zip upt_rec)

text \<open>
  Claim C6, amended. Let the cache hold a snapshot \<open>A\<close> and let the new snapshot \<open>B\<close> be not
  empty. \<open>interpolateFaces\<close> with the blend factor 0.3 returns one face for each face of
  \<open>B\<close> and none else, and makes \<open>B\<close> the cache. A face of \<open>B\<close> at an index \<open>A\<close> does not have
  passes through unchanged. A face at an index present in both keeps \<open>B\<close>'s other
  properties and gets one landmark for each landmark of \<open>B\<close>'s mesh: at a landmark index
  present in both meshes the point \<open>A + (B - A) \<times> 0.3\<close>, componentwise for x, y and depth;
  at a landmark index only \<open>B\<close>'s mesh has, \<open>B\<close>'s point unchanged. (A face or landmark only
  \<open>A\<close> has is not in the result.)
\<close>

theorem interpolateFaces_blend_law:
  fixes this :: "'f performance_manager"
  assumes "cachedFaces this = Some A" and "B \<noteq> []"
  shows "length (fst (interpolateFaces B INTERPOLATION_FACTOR this)) = length B
    \<and> cachedFaces (snd (interpolateFaces B INTERPOLATION_FACTOR this)) = Some B
    \<and> (\<forall>i < length B.
         (length A \<le> i \<longrightarrow> fst (interpolateFaces B INTERPOLATION_FACTOR this) ! i = B ! i)
       \<and> (i < length A \<longrightarrow>
            face.more (fst (interpolateFaces B INTERPOLATION_FACTOR this) ! i) = face.more (B ! i)
          \<and> length (scaledMesh (fst (interpolateFaces B INTERPOLATION_FACTOR this) ! i))
              = length (scaledMesh (B ! i))
          \<and> (\<forall>j < length (scaledMesh (B ! i)).
               scaledMesh (fst (interpolateFaces B INTERPOLATION_FACTOR this) ! i) ! j =
                 (if j < length (scaledMesh (A ! i))
                  then (c0 (scaledMesh (A ! i) ! j)
                          + (c0 (scaledMesh (B ! i) ! j) - c0 (scaledMesh (A ! i) ! j)) * (3 / 10),
                        c1 (scaledMesh (A ! i) ! j)
                          + (c1 (scaledMesh (B ! i) ! j) - c1 (scaledMesh (A ! i) ! j)) * (3 / 10),
                        c2 (scaledMesh (A ! i) ! j)
                          + (c2 (scaledMesh (B ! i) ! j) - c2 (scaledMesh (A ! i) ! j)) * (3 / 10))
                  else scaledMesh (B ! i) ! j))))"
proof (intro conjI allI impI)
  show "length (fst (interpolateFaces B INTERPOLATION_FACTOR this)) = length B"
    using assms by (simp add: interpolateFaces_cached)
  show "cachedFaces (snd (interpolateFaces B INTERPOLATION_FACTOR this)) = Some B"
    using assms by (simp add: interpolateFaces_cached)
next
  fix i assume "i < length B" and "length A \<le> i"
  with assms show "fst (interpolateFaces B INTERPOLATION_FACTOR this) ! i = B ! i"
    by (rule interpolateFaces_only_new)
next
  fix i assume i: "i < length B" "i < length A"
  from interpolateFaces_both [OF assms i]
  show "face.more (fst (interpolateFaces B INTERPOLATION_FACTOR this) ! i) = face.more (B ! i)"
    by simp
  from interpolateFaces_both [OF assms i]
  show "length (scaledMesh (fst (interpolateFaces B INTERPOLATION_FACTOR this) ! i))
      = length (scaledMesh (B ! i))"
    by simp
next
  fix i j assume i: "i < length B" "i < length A" and j: "j < length (scaledMesh (B ! i))"
  from interpolateFaces_point [OF assms i j]
  show "scaledMesh (fst (interpolateFaces B INTERPOLATION_FACTOR this) ! i) ! j =
      (if j < length (scaledMesh (A ! i))
       then (c0 (scaledMesh (A ! i) ! j)
               + (c0 (scaledMesh (B ! i) ! j) - c0 (scaledMesh (A ! i) ! j)) * (3 / 10),
             c1 (scaledMesh (A ! i) ! j)
               + (c1 (scaledMesh (B ! i) ! j) - c1 (scaledMesh (A ! i) ! j)) * (3 / 10),
             c2 (scaledMesh (A ! i) ! j)
               + (c2 (scaledMesh (B ! i) ! j) - c2 (scaledMesh (A ! i) ! j)) * (3 / 10))
       else scaledMesh (B ! i) ! j)"
    by (simp add: lerp_point_def INTERPOLATION_FACTOR_def)
qed

theorem interpolateFaces_blend_law_witness:
  "cachedFaces ((new_PerformanceManager :: unit performance_manager)\<lparr>cachedFaces := Some cached_snapshot\<rparr>)
     = Some cached_snapshot
   \<and> new_snapshot \<noteq> []
   \<and> length (fst (interpolateFaces new_snapshot INTERPOLATION_FACTOR
        (new_PerformanceManager\<lparr>cachedFaces := Some cached_snapshot\<rparr>))) = 1
   \<and> scaledMesh (fst (interpolateFaces new_snapshot INTERPOLATION_FACTOR
        (new_PerformanceManager\<lparr>cachedFaces := Some cached_snapshot\<rparr>)) ! 0) ! 0 = (3, 13, 23)
   \<and> scaledMesh (fst (interpolateFaces new_snapshot INTERPOLATION_FACTOR
        (new_PerformanceManager\<lparr>cachedFaces := Some cached_snapshot\<rparr>)) ! 0) ! 1 = (7, 7, 7)"
proof -
  let ?pm = "(new_PerformanceManager :: unit performance_manager)\<lparr>cachedFaces := Some cached_snapshot\<rparr>"
  let ?R = "fst (interpolateFaces new_snapshot INTERPOLATION_FACTOR ?pm)"
  have h1: "cachedFaces ?pm = Some cached_snapshot" by simp
  have h2: "new_snapshot \<noteq> []" by (simp add: new_snapshot_def)
  note law = interpolateFaces_blend_law [OF h1 h2]
  from law have len: "length ?R = 1" by (simp add: new_snapshot_def)
  from law have pts: "\<forall>j < length (scaledMesh (new_snapshot ! 0)).
               scaledMesh (?R ! 0) ! j =
                 (if j < length (scaledMesh (cached_snapshot ! 0))
                  then (c0 (scaledMesh (cached_snapshot ! 0) ! j)
                          + (c0 (scaledMesh (new_snapshot ! 0) ! j) - c0 (scaledMesh (cached_snapshot ! 0) ! j)) * (3 / 10),
                        c1 (scaledMesh (cached_snapshot ! 0) ! j)
                          + (c1 (scaledMesh (new_snapshot ! 0) ! j) - c1 (scaledMesh (cached_snapshot ! 0) ! j)) * (3 / 10),
                        c2 (scaledMesh (cached_snapshot ! 0) ! j)
                          + (c2 (scaledMesh (new_snapshot ! 0) ! j) - c2 (scaledMesh (cached_snapshot ! 0) ! j)) * (3 / 10))
                  else scaledMesh (new_snapshot ! 0) ! j)"
    by (simp add: new_snapshot_def cached_snapshot_def)
  from pts have p0: "scaledMesh (?R ! 0) ! 0 = (3, 13, 23)"
    by (simp add: new_snapshot_def cached_snapshot_def)
  from pts have p1: "scaledMesh (?R ! 0) ! 1 = (7, 7, 7)"
    by (simp add: new_snapshot_def cached_snapshot_def)
  from h1 h2 len p0 p1 show ?thesis by blast
qed

section \<open>Properties of the bilinear sampler\<close>

lemma floor_half_nat: "\<lfloor>real n + 1 / 2\<rfloor> = int n"
  by linarith

text \<open>
  At an integer coordinate inside the buffer's size, the sample is what \<open>getPixel\<close> reads
  there; and a sample depends on its coordinate only through the coordinate clamped to
  \<open>[0, width - 1] \<times> [0, height - 1]\<close>.
\<close>

lemma bilinearSample_integer:
  assumes "0 \<le> i" "i < w" "0 \<le> j" "j < h"
  shows "bilinearSample d (of_int i) (of_int j) w h = map int (getPixel d w i j)"
proof -
  have x: "max 0 (min (real_of_int (w - 1)) (real_of_int i)) = real_of_int i"
    using assms by simp
  have y: "max 0 (min (real_of_int (h - 1)) (real_of_int j)) = real_of_int j"
    using assms by simp
  obtain a b c e where p: "getPixel d w i j = [a, b, c, e]"
    by (simp add: getPixel_def Let_def)
  have fl: "\<lfloor>real_of_int i\<rfloor> = i" "\<lfloor>real_of_int j\<rfloor> = j" by simp_all
  show ?thesis
    unfolding bilinearSample_def Let_def x y fl
    by (simp add: p floor_half_nat)
qed

lemma clamp_idem: "max 0 (min (b::real) (max 0 (min b x))) = max 0 (min b x)"
  by (simp add: max_def min_def)

lemma bilinearSample_clamps:
  "bilinearSample d (max 0 (min (of_int (w - 1)) x)) (max 0 (min (of_int (h - 1)) y)) w h =
   bilinearSample d x y w h"
  unfolding bilinearSample_def clamp_idem ..

lemma getPixel_transparent: "getPixel [10, 20, 30, 0] 1 0 0 = [10, 20, 30, 255]"
  by (simp add: getPixel_def imageData_at_def Let_def)

text \<open>
  Claim C7, evaluated where it fails. The buffer is one pixel, red 10, green 20, blue 30,
  alpha 0. Sampled at \<open>(0, 0)\<close>, its own in-bounds integer coordinate, and at \<open>(-5, 7)\<close>,
  outside, the sampler returns alpha 255: \<open>imageData[index + 3] || 255\<close> takes the stored
  \<open>0\<close> for a missing value.
\<close>

theorem bilinearSample_alpha_zero_becomes_opaque:
  "bilinearSample [10, 20, 30, 0] 0 0 1 1 = [10, 20, 30, 255]
   \<and> bilinearSample [10, 20, 30, 0] (- 5) 7 1 1 = [10, 20, 30, 255]"
proof -
  have inside: "bilinearSample [10, 20, 30, 0] 0 0 1 1 = [10, 20, 30, 255]"
    using bilinearSample_integer [of 0 1 0 1 "[10, 20, 30, 0]"]
    by (simp add: getPixel_transparent)
  have "bilinearSample [10, 20, 30, 0] (- 5) 7 1 1 = bilinearSample [10, 20, 30, 0] 0 0 1 1"
    using bilinearSample_clamps [of "[10, 20, 30, 0]" 1 "- 5" 1 7] by simp
  with inside show ?thesis by simp
qed

section \<open>Properties of the inverse transform\<close>

subsection \<open>Arithmetic on JavaScript numbers\<close>

lemma Num_minus [simp]: "Num a - Num b = Num (a - b)"
  by (simp add: minus_jsnum_def)

lemma NaN_minus [simp]: "v - NaN = NaN" "NaN - v = NaN"
  by (cases v; simp add: minus_jsnum_def)+

lemma NaN_right [simp]: "v + NaN = NaN" "v * NaN = NaN" "v / NaN = NaN" "\<not> v < NaN"
  by (cases v; simp)+

lemma finite_or_NaN_simps [simp]:
  "finite_or_NaN (Num a)" "finite_or_NaN NaN" "\<not> finite_or_NaN PosInf" "\<not> finite_or_NaN NegInf"
  by (simp_all add: finite_or_NaN_def)

lemma finite_or_NaN_cos [simp]: "finite_or_NaN (js_cos v)"
  by (cases v) simp_all

lemma finite_or_NaN_pow [simp]: "finite_or_NaN v \<Longrightarrow> finite_or_NaN (js_pow v e)"
  by (cases v) simp_all

lemma finite_or_NaN_max [simp]:
  "finite_or_NaN a \<Longrightarrow> finite_or_NaN b \<Longrightarrow> finite_or_NaN (js_max a b)"
  by (cases a; cases b) simp_all

lemma finite_or_NaN_times [simp]:
  "finite_or_NaN a \<Longrightarrow> finite_or_NaN b \<Longrightarrow> finite_or_NaN (a * b)"
  by (cases a; cases b) simp_all

subsection \<open>The influence functions\<close>

text \<open>Every influence is a finite number or NaN, and is 0 where the centre is missing.\<close>

lemma eye_influence_finite:
  "calculateEyeInfluence this x y ec lm = Inr v \<Longrightarrow> finite_or_NaN v"
  by (auto simp add: calculateEyeInfluence_def Let_def split: option.splits if_splits)

lemma eye_influence_no_center: "calculateEyeInfluence this x y None lm = Inr (Num 0)"
  by (simp add: calculateEyeInfluence_def)

lemma mouth_influence_finite: "finite_or_NaN (calculateMouthInfluence this x y mc lm)"
  by (auto simp add: calculateMouthInfluence_def Let_def split: option.splits)

lemma mouth_influence_no_center: "calculateMouthInfluence this x y None lm = Num 0"
  by (simp add: calculateMouthInfluence_def)

lemma face_influence_finite:
  "calculateFaceSlimInfluence x y lm = Inr v \<Longrightarrow> finite_or_NaN v"
  by (auto simp add: calculateFaceSlimInfluence_def Let_def split: option.splits if_splits)

lemma eye_influence_defined:
  "leftEyeOuter lm \<noteq> None \<Longrightarrow> leftEyeInner lm \<noteq> None \<Longrightarrow>
   \<exists>v. calculateEyeInfluence this x y ec lm = Inr v"
  by (cases ec) (auto simp add: calculateEyeInfluence_def Let_def)

lemma face_influence_defined:
  "faceLeft lm \<noteq> None \<Longrightarrow> faceRight lm \<noteq> None \<Longrightarrow> landmarks.foreheadCenter lm \<noteq> None \<Longrightarrow>
   chinTip lm \<noteq> None \<Longrightarrow> \<exists>v. calculateFaceSlimInfluence x y lm = Inr v"
  by (auto simp add: calculateFaceSlimInfluence_def Let_def)

text \<open>On a region of zero width (or, for the face, zero height) an influence is 0 or NaN.\<close>

lemma eye_degenerate:
  assumes "leftEyeOuter lm = Some outer" "leftEyeInner lm = Some inner" "c0 outer = c0 inner"
  shows "calculateEyeInfluence this x y ec lm = Inr (Num 0)
       \<or> calculateEyeInfluence this x y ec lm = Inr NaN"
  using assms by (cases ec) (simp_all add: calculateEyeInfluence_def Let_def)

lemma mouth_degenerate:
  assumes "mouthLeftCorner lm = Some ml" "mouthRightCorner lm = Some mr" "c0 ml = c0 mr"
  shows "calculateMouthInfluence this x y mc lm = Num 0
       \<or> calculateMouthInfluence this x y mc lm = NaN"
proof (cases mc)
  case None
  then show ?thesis by (simp add: calculateMouthInfluence_def)
next
  case (Some c)
  show ?thesis
  proof (cases "x = fst c")
    case True
    with Some assms show ?thesis
      by (simp add: calculateMouthInfluence_def Let_def split: option.splits)
  next
    case False
    with Some assms show ?thesis
      by (simp add: calculateMouthInfluence_def Let_def js_inf_def split: option.splits)
  qed
qed

lemma face_degenerate:
  assumes "faceLeft lm = Some fl" "faceRight lm = Some fr"
    and "landmarks.foreheadCenter lm = Some fh" "chinTip lm = Some chin"
    and "c0 fl = c0 fr \<or> c1 fh = c1 chin"
  shows "calculateFaceSlimInfluence x y lm = Inr (Num 0)
       \<or> calculateFaceSlimInfluence x y lm = Inr NaN"
  using assms by (auto simp add: calculateFaceSlimInfluence_def Let_def)

subsection \<open>The blocks of the transform\<close>

lemma slimming_skipped:
  "v = Num 0 \<or> v = NaN \<Longrightarrow> reverse_face_slimming this fc v p = p"
  by (auto simp add: reverse_face_slimming_def)

lemma enlargement_skipped:
  "v = Num 0 \<or> v = NaN \<Longrightarrow> reverse_enlargement sf i v c p = Inr p"
  by (auto simp add: reverse_enlargement_def)

lemma inverseTransformPoint_blocks:
  assumes "faceLeft lm = Some fl" "faceRight lm = Some fr"
    and "calculateFaceSlimInfluence x y lm = Inr fi"
    and "calculateEyeInfluence this x y (leftEyeCenter lm) lm = Inr le"
    and "calculateEyeInfluence this x y (rightEyeCenter lm) lm = Inr re"
    and "reverse_face_slimming this (Num (to_double (to_double (c0 fl + c0 fr) / 2))) fi
           (Num x, Num y) = p1"
    and "reverse_enlargement (eyeScaleFactor this) (intensity this) le
           (map_option xy (leftEyeCenter lm)) p1 = Inr p2"
    and "reverse_enlargement (eyeScaleFactor this) (intensity this) re
           (map_option xy (rightEyeCenter lm)) p2 = Inr p3"
    and "reverse_enlargement (mouthScaleFactor this) (intensity this)
           (calculateMouthInfluence this x y (mouthCenter lm) lm) (mouthCenter lm) p3 = Inr p4"
  shows "inverseTransformPoint this x y lm = Inr p4"
  by (simp add: inverseTransformPoint_def assms)

subsection \<open>Degenerate regions\<close>

lemma landmarks_degenerate_face:
  "getMorphingLandmarks degenerate_face =
     \<lparr>leftEyeCenter = Some (320, 240, 0), rightEyeCenter = Some (320, 240, 0),
      leftEyeInner = Some (320, 240, 0), leftEyeOuter = Some (320, 240, 0),
      faceLeft = Some (320, 240, 0), faceRight = Some (320, 240, 0),
      chinTip = Some (320, 240, 0), foreheadCenter = Some (320, 240, 0),
      mouthLeftCorner = Some (320, 240, 0), mouthRightCorner = Some (320, 240, 0),
      mouthTopCenter = Some (320, 240, 0), mouthBottomCenter = Some (320, 240, 0),
      mouthCenter = Some (320, 240)\<rparr>"
  by (simp add: getMorphingLandmarks_def mesh_at_def Let_def degenerate_face_def
      LEFT_EYE_CENTER_def RIGHT_EYE_CENTER_def LEFT_EYE_def RIGHT_EYE_def LEFT_EYE_INNER_def
      LEFT_EYE_OUTER_def FACE_LEFT_def FACE_RIGHT_def CHIN_TIP_def FOREHEAD_CENTER_def
      MOUTH_LEFT_CORNER_def MOUTH_RIGHT_CORNER_def MOUTH_TOP_CENTER_def MOUTH_BOTTOM_CENTER_def)

text \<open>
  Claim C3 as stated fails at the centre of a zero-width eye region: all landmarks of the
  face are at \<open>(320, 240)\<close>, the point is the eye centre, the distance and the eye radius
  are both 0, and the influence is \<open>0 / 0\<close> taken through the cosine falloff: NaN, not 0.
  The same happens on the mouth and on the face.
\<close>

theorem degenerate_influence_is_NaN_at_center:
  "calculateEyeInfluence new_MorphFilter 320 240 (Some (320, 240, 0))
     (getMorphingLandmarks degenerate_face) = Inr NaN
   \<and> calculateMouthInfluence new_MorphFilter 320 240 (Some (320, 240))
     (getMorphingLandmarks degenerate_face) = NaN
   \<and> calculateFaceSlimInfluence 320 240 (getMorphingLandmarks degenerate_face) = Inr NaN"
  by (simp add: landmarks_degenerate_face calculateEyeInfluence_def calculateMouthInfluence_def
      calculateFaceSlimInfluence_def Let_def new_MorphFilter_def)

text \<open>
  Claim C3, amended. For every point and every landmark set: when the two landmarks that
  give the eye region its width have the same x, the eye influence (of either eye) is 0
  or NaN; when the two mouth corners have the same x, the mouth influence is 0 or NaN;
  when the two face edges have the same x, or the forehead centre and the chin tip the
  same y, the face-slim influence is 0 or NaN. None of them is positive and none throws.
  NaN is the value of the \<open>0 / 0\<close> computed at the centre. Since \<open>NaN > 0\<close> and \<open>0 > 0\<close> are
  both false, the block of \<open>inverseTransformPoint\<close> that belongs to the degenerate
  deformation leaves the point as it is; and when eye, mouth and face region are all
  degenerate, \<open>inverseTransformPoint\<close> returns \<open>(x, y)\<close> unchanged.
\<close>

theorem degenerate_region_leaves_point_unchanged:
  "(leftEyeOuter lm = Some outer \<and> leftEyeInner lm = Some inner \<and> c0 outer = c0 inner \<longrightarrow>
      (calculateEyeInfluence this x y ec lm = Inr (Num 0)
       \<or> calculateEyeInfluence this x y ec lm = Inr NaN)
      \<and> (calculateEyeInfluence this x y ec lm = Inr v \<longrightarrow>
           reverse_enlargement (eyeScaleFactor this) (intensity this) v (map_option xy ec) p
             = Inr p))
   \<and> (mouthLeftCorner lm = Some ml \<and> mouthRightCorner lm = Some mr \<and> c0 ml = c0 mr \<longrightarrow>
      (calculateMouthInfluence this x y mc lm = Num 0
       \<or> calculateMouthInfluence this x y mc lm = NaN)
      \<and> reverse_enlargement (mouthScaleFactor this) (intensity this)
            (calculateMouthInfluence this x y mc lm) mc p = Inr p)
   \<and> (faceLeft lm = Some fl \<and> faceRight lm = Some fr \<and> landmarks.foreheadCenter lm = Some fh
        \<and> chinTip lm = Some chin \<and> (c0 fl = c0 fr \<or> c1 fh = c1 chin) \<longrightarrow>
      (calculateFaceSlimInfluence x y lm = Inr (Num 0)
       \<or> calculateFaceSlimInfluence x y lm = Inr NaN)
      \<and> (calculateFaceSlimInfluence x y lm = Inr w \<longrightarrow>
           reverse_face_slimming this fc w p = p))
   \<and> (leftEyeOuter lm = Some outer \<and> leftEyeInner lm = Some inner \<and> c0 outer = c0 inner
        \<and> mouthLeftCorner lm = Some ml \<and> mouthRightCorner lm = Some mr \<and> c0 ml = c0 mr
        \<and> faceLeft lm = Some fl \<and> faceRight lm = Some fr \<and> landmarks.foreheadCenter lm = Some fh
        \<and> chinTip lm = Some chin \<and> (c0 fl = c0 fr \<or> c1 fh = c1 chin) \<longrightarrow>
      inverseTransformPoint this x y lm = Inr (Num x, Num y))"
proof (intro conjI impI)
  assume e: "leftEyeOuter lm = Some outer \<and> leftEyeInner lm = Some inner \<and> c0 outer = c0 inner"
  then show d: "calculateEyeInfluence this x y ec lm = Inr (Num 0)
       \<or> calculateEyeInfluence this x y ec lm = Inr NaN"
    using eye_degenerate [of lm outer inner this x y ec] by blast
  assume "calculateEyeInfluence this x y ec lm = Inr v"
  with d have "v = Num 0 \<or> v = NaN" by auto
  then show "reverse_enlargement (eyeScaleFactor this) (intensity this) v (map_option xy ec) p
      = Inr p"
    by (rule enlargement_skipped)
next
  assume "mouthLeftCorner lm = Some ml \<and> mouthRightCorner lm = Some mr \<and> c0 ml = c0 mr"
  then show d: "calculateMouthInfluence this x y mc lm = Num 0
       \<or> calculateMouthInfluence this x y mc lm = NaN"
    using mouth_degenerate [of lm ml mr this x y mc] by blast
  then show "reverse_enlargement (mouthScaleFactor this) (intensity this)
      (calculateMouthInfluence this x y mc lm) mc p = Inr p"
    by (rule enlargement_skipped)
next
  assume "faceLeft lm = Some fl \<and> faceRight lm = Some fr \<and> landmarks.foreheadCenter lm = Some fh
        \<and> chinTip lm = Some chin \<and> (c0 fl = c0 fr \<or> c1 fh = c1 chin)"
  then show d: "calculateFaceSlimInfluence x y lm = Inr (Num 0)
       \<or> calculateFaceSlimInfluence x y lm = Inr NaN"
    using face_degenerate [of lm fl fr fh chin x y] by blast
  assume "calculateFaceSlimInfluence x y lm = Inr w"
  with d have "w = Num 0 \<or> w = NaN" by auto
  then show "reverse_face_slimming this fc w p = p"
    by (rule slimming_skipped)
next
  assume a: "leftEyeOuter lm = Some outer \<and> leftEyeInner lm = Some inner \<and> c0 outer = c0 inner
        \<and> mouthLeftCorner lm = Some ml \<and> mouthRightCorner lm = Some mr \<and> c0 ml = c0 mr
        \<and> faceLeft lm = Some fl \<and> faceRight lm = Some fr \<and> landmarks.foreheadCenter lm = Some fh
        \<and> chinTip lm = Some chin \<and> (c0 fl = c0 fr \<or> c1 fh = c1 chin)"
  from a have f: "faceLeft lm = Some fl" "faceRight lm = Some fr" by simp_all
  from a obtain fi where fi: "calculateFaceSlimInfluence x y lm = Inr fi"
      and fi0: "fi = Num 0 \<or> fi = NaN"
    using face_degenerate [of lm fl fr fh chin x y] by blast
  from a obtain le where le: "calculateEyeInfluence this x y (leftEyeCenter lm) lm = Inr le"
      and le0: "le = Num 0 \<or> le = NaN"
    using eye_degenerate [of lm outer inner this x y "leftEyeCenter lm"] by blast
  from a obtain re where re: "calculateEyeInfluence this x y (rightEyeCenter lm) lm = Inr re"
      and re0: "re = Num 0 \<or> re = NaN"
    using eye_degenerate [of lm outer inner this x y "rightEyeCenter lm"] by blast
  from a have m0: "calculateMouthInfluence this x y (mouthCenter lm) lm = Num 0
       \<or> calculateMouthInfluence this x y (mouthCenter lm) lm = NaN"
    using mouth_degenerate [of lm ml mr this x y "mouthCenter lm"] by blast
  from f fi le re slimming_skipped [OF fi0] enlargement_skipped [OF le0]
    enlargement_skipped [OF re0] enlargement_skipped [OF m0]
  show "inverseTransformPoint this x y lm = Inr (Num x, Num y)"
    by (rule inverseTransformPoint_blocks)
qed

theorem degenerate_region_leaves_point_unchanged_witness:
  "leftEyeOuter (getMorphingLandmarks degenerate_face) = Some (320, 240, 0)
   \<and> leftEyeInner (getMorphingLandmarks degenerate_face) = Some (320, 240, 0)
   \<and> mouthLeftCorner (getMorphingLandmarks degenerate_face) = Some (320, 240, 0)
   \<and> mouthRightCorner (getMorphingLandmarks degenerate_face) = Some (320, 240, 0)
   \<and> faceLeft (getMorphingLandmarks degenerate_face) = Some (320, 240, 0)
   \<and> faceRight (getMorphingLandmarks degenerate_face) = Some (320, 240, 0)
   \<and> landmarks.foreheadCenter (getMorphingLandmarks degenerate_face) = Some (320, 240, 0)
   \<and> chinTip (getMorphingLandmarks degenerate_face) = Some (320, 240, 0)
   \<and> calculateEyeInfluence new_MorphFilter 320 240 (Some (320, 240, 0))
        (getMorphingLandmarks degenerate_face) = Inr NaN
   \<and> reverse_enlargement (eyeScaleFactor new_MorphFilter) (intensity new_MorphFilter) NaN
        (map_option xy (Some (320, 240, 0))) (Num 320, Num 240) = Inr (Num 320, Num 240)
   \<and> reverse_enlargement (mouthScaleFactor new_MorphFilter) (intensity new_MorphFilter)
        (calculateMouthInfluence new_MorphFilter 320 240 (Some (320, 240))
           (getMorphingLandmarks degenerate_face))
        (Some (320, 240)) (Num 320, Num 240) = Inr (Num 320, Num 240)
   \<and> calculateFaceSlimInfluence 320 240 (getMorphingLandmarks degenerate_face) = Inr NaN
   \<and> reverse_face_slimming new_MorphFilter (Num 320) NaN (Num 320, Num 240) = (Num 320, Num 240)
   \<and> inverseTransformPoint new_MorphFilter 320 240 (getMorphingLandmarks degenerate_face)
        = Inr (Num 320, Num 240)"
proof -
  let ?L = "getMorphingLandmarks degenerate_face"
  let ?pt = "(320, 240, 0) :: point"
  have lm: "leftEyeOuter ?L = Some ?pt" "leftEyeInner ?L = Some ?pt"
    "mouthLeftCorner ?L = Some ?pt" "mouthRightCorner ?L = Some ?pt"
    "faceLeft ?L = Some ?pt" "faceRight ?L = Some ?pt"
    "landmarks.foreheadCenter ?L = Some ?pt" "chinTip ?L = Some ?pt"
    by (simp_all add: landmarks_degenerate_face)
  have same: "c0 ?pt = c0 ?pt" "c0 ?pt = c0 ?pt \<or> c1 ?pt = c1 ?pt" by simp_all
  have eye: "calculateEyeInfluence new_MorphFilter 320 240 (Some ?pt) ?L = Inr NaN"
    by (simp add: landmarks_degenerate_face calculateEyeInfluence_def Let_def new_MorphFilter_def)
  have face: "calculateFaceSlimInfluence 320 240 ?L = Inr NaN"
    by (simp add: landmarks_degenerate_face calculateFaceSlimInfluence_def Let_def)
  note inst = degenerate_region_leaves_point_unchanged [where lm = ?L and outer = ?pt
      and inner = ?pt and ml = ?pt and mr = ?pt and fl = ?pt and fr = ?pt and fh = ?pt
      and chin = ?pt and this = new_MorphFilter and x = 320 and y = 240 and ec = "Some ?pt"
      and v = NaN and p = "(Num 320, Num 240)" and mc = "Some (320, 240)" and fc = "Num 320"
      and w = NaN]
  from inst lm same eye
  have e: "reverse_enlargement (eyeScaleFactor new_MorphFilter) (intensity new_MorphFilter) NaN
        (map_option xy (Some ?pt)) (Num 320, Num 240) = Inr (Num 320, Num 240)"
    by blast
  from inst lm same
  have m: "reverse_enlargement (mouthScaleFactor new_MorphFilter) (intensity new_MorphFilter)
        (calculateMouthInfluence new_MorphFilter 320 240 (Some (320, 240)) ?L)
        (Some (320, 240)) (Num 320, Num 240) = Inr (Num 320, Num 240)"
    by blast
  from inst lm same face
  have f: "reverse_face_slimming new_MorphFilter (Num 320) NaN (Num 320, Num 240)
      = (Num 320, Num 240)"
    by blast
  from inst lm same
  have t: "inverseTransformPoint new_MorphFilter 320 240 ?L = Inr (Num 320, Num 240)"
    by blast
  from lm eye e m face f t show ?thesis by blast
qed

end
